theory Spec2Isabelle
  imports Main "HOL-Library.Sublist"
begin

section \<open>The todo list component (src/client/components/TodoList.tsx)\<close>

text \<open>
  The component is a React function component. Its embedding has three layers:
  \<^item> the data it handles (\<open>TodoStatus\<close>, the filter, a todo as the query returns it);
  \<^item> the remote calls it can issue, as values, so that a handler is a function returning
    the list of calls it makes, in order;
  \<^item> the markup it returns, as records holding the attributes that the source computes
    (class names, checkbox state, keys, callbacks), and the component's reaction to user
    and network events as a function on its state.
\<close>

subsection \<open>Data\<close>

text \<open>\<^verbatim>\<open>type TodoStatus = 'completed' | 'pending'\<close> (line 69).\<close>

datatype TodoStatus = Completed | Pending

text \<open>
  \<^verbatim>\<open>TodoStatus | 'all'\<close>, the type of the selected filter (line 72): either the
  literal \<open>'all'\<close> or one of the two statuses.
\<close>

datatype Filter = All | Status TodoStatus

text \<open>
  An element of the list that \<^verbatim>\<open>api.todo.getAll\<close> returns. The component reads
  \<^verbatim>\<open>todo.id\<close> (a number), \<^verbatim>\<open>todo.body\<close> and \<^verbatim>\<open>todo.status\<close>.
\<close>

record Todo =
  id_todo :: int
  body :: string
  status :: TodoStatus

subsection \<open>Remote calls\<close>

text \<open>
  The calls of the typed client \<^verbatim>\<open>api\<close> that the file's header comment and body name:
  \<^verbatim>\<open>api.todo.getAll.useQuery({ statuses })\<close>,
  \<^verbatim>\<open>api.todoStatus.update\<close>'s \<^verbatim>\<open>mutate({ todoId, status })\<close>,
  \<^verbatim>\<open>api.todo.delete\<close>'s \<^verbatim>\<open>mutate({ id })\<close>,
  \<^verbatim>\<open>apiContext.todo.getAll.refetch()\<close>, and \<^verbatim>\<open>api.todo.create\<close>, which the
  header comment mentions as used by another component (CreateTodoForm.tsx).
\<close>

datatype RemoteCall =
    TodoGetAll "TodoStatus list"
  | TodoStatusUpdate int TodoStatus
  | TodoDelete int
  | TodoGetAllRefetch
  | TodoCreate string

text \<open>The remote procedure a call addresses, by its path on the client object.\<close>

fun procedure :: "RemoteCall \<Rightarrow> string" where
  "procedure (TodoGetAll statuses) = ''todo.getAll''"
| "procedure (TodoStatusUpdate todoId st) = ''todoStatus.update''"
| "procedure (TodoDelete todoId) = ''todo.delete''"
| "procedure TodoGetAllRefetch = ''todo.getAll''"
| "procedure (TodoCreate b) = ''todo.create''"

subsection \<open>Hooks and handlers\<close>

text \<open>
  Lines 76-79: the input of the query,
  \<^verbatim>\<open>selectedStatus === 'all' ? ['completed', 'pending'] : [selectedStatus]\<close>.
  In the second branch the type of \<^verbatim>\<open>selectedStatus\<close> is narrowed to \<open>TodoStatus\<close>.
\<close>

definition statuses :: "Filter \<Rightarrow> TodoStatus list" where
  "statuses selectedStatus =
     (case selectedStatus of All \<Rightarrow> [Completed, Pending] | Status st \<Rightarrow> [st])"

definition useQuery :: "Filter \<Rightarrow> RemoteCall" where
  "useQuery selectedStatus = TodoGetAll (statuses selectedStatus)"

text \<open>
  Line 76: \<^verbatim>\<open>const { data: todos = [] } = ...\<close>. The query's data is undefined until a
  snapshot has arrived; the destructuring default then gives the empty list.
\<close>

definition todos_of :: "Todo list option \<Rightarrow> Todo list" where
  "todos_of data = (case data of None \<Rightarrow> [] | Some ts \<Rightarrow> ts)"

text \<open>Lines 83-85 and 88-90: both mutations refetch the list when they succeed.\<close>

definition onSuccess_update :: "RemoteCall list" where
  "onSuccess_update = [TodoGetAllRefetch]"

definition onSuccess_delete :: "RemoteCall list" where
  "onSuccess_delete = [TodoGetAllRefetch]"

text \<open>
  Line 96: the status sent by \<^verbatim>\<open>handleStatusChange\<close>,
  \<^verbatim>\<open>currentStatus === 'pending' ? 'completed' : 'pending'\<close>.
\<close>

definition flipStatus :: "TodoStatus \<Rightarrow> TodoStatus" where
  "flipStatus currentStatus = (if currentStatus = Pending then Completed else Pending)"

text \<open>Lines 93-98 and 100-104: each handler makes one call to its mutation.\<close>

definition handleStatusChange :: "int \<Rightarrow> TodoStatus \<Rightarrow> RemoteCall list" where
  "handleStatusChange todoId currentStatus =
     [TodoStatusUpdate todoId (flipStatus currentStatus)]"

definition handleDelete :: "int \<Rightarrow> RemoteCall list" where
  "handleDelete todoId = [TodoDelete todoId]"

subsection \<open>Markup\<close>

text \<open>
  \<^verbatim>\<open>String(todo.id)\<close>: the string that the language's built-in conversion prints for
  the number. The conversion is no code of the component and no property below reads the
  characters it prints, so they are not computed here: the printed string is a value of a
  type of its own that records the number printed.
\<close>

datatype Printed = String_num int

text \<open>
  One \<^verbatim>\<open><li>\<close> of a list: the key, the class of the enclosing \<^verbatim>\<open><div>\<close>, the
  attributes of \<^verbatim>\<open>Checkbox.Root\<close>, of the \<^verbatim>\<open><label>\<close> and of the delete
  \<^verbatim>\<open><button>\<close>. A callback takes no argument that it uses, so it is represented by
  the calls it makes when invoked.
\<close>

record Li =
  key :: int
  div_className :: string
  checkbox_id :: Printed
  checked :: bool
  onCheckedChange :: "RemoteCall list"
  checkbox_className :: string
  label_className :: string
  htmlFor :: Printed
  label_children :: string
  button_className :: string
  onClick :: "RemoteCall list"
  aria_label :: string

text \<open>Lines 163-207: an item of the tab \<open>all\<close>.\<close>

definition li_all :: "Todo \<Rightarrow> Li" where
  "li_all todo = \<lparr>
     key = id_todo todo,
     div_className =
       ''flex items-center rounded-12 border border-gray-200 px-4 py-3 shadow-sm '' @
       (if status todo = Completed then ''bg'' else ''''),
     checkbox_id = String_num (id_todo todo),
     checked = (status todo = Completed),
     onCheckedChange = handleStatusChange (id_todo todo) (status todo),
     checkbox_className =
       ''flex h-6 w-6 items-center justify-center rounded-6 border focus:outline-none'' @
       [CHR 0x0A] @ replicate 24 (CHR '' '') @
       (if status todo = Completed then ''bg-gray-700'' else ''bg-white'') @
       [CHR 0x0A] @ replicate 24 (CHR '' '') @
       ''transition-colors duration-300'',
     label_className =
       ''block pl-3 font-medium '' @
       (if status todo = Completed then ''text-gray-500 line-through'' else ''''),
     htmlFor = String_num (id_todo todo),
     label_children = body todo,
     button_className = ''hover:text-red-500 ml-auto p-1 text-gray-500'',
     onClick = handleDelete (id_todo todo),
     aria_label = ''Delete todo'' \<rparr>"

text \<open>Lines 216-254: an item of the tab \<open>pending\<close>.\<close>

definition li_pending :: "Todo \<Rightarrow> Li" where
  "li_pending todo = \<lparr>
     key = id_todo todo,
     div_className =
       ''flex items-center rounded-12 border border-gray-200 px-4 py-3 shadow-sm '' @
       (if status todo = Completed then ''bg-gray-700'' else ''''),
     checkbox_id = String_num (id_todo todo),
     checked = (status todo = Completed),
     onCheckedChange = handleStatusChange (id_todo todo) (status todo),
     checkbox_className =
       ''flex h-6 w-6 items-center justify-center rounded-6 border border-gray-300 focus:border-gray-700 focus:outline-none data-[state=checked]:border-gray-700 data-[state=checked]:bg-gray-700'',
     label_className =
       ''block pl-3 font-medium '' @
       (if status todo = Completed then ''line-through-custom text-white'' else ''''),
     htmlFor = String_num (id_todo todo),
     label_children = body todo,
     button_className = ''hover:text-red-500 ml-auto p-1 text-gray-500'',
     onClick = handleDelete (id_todo todo),
     aria_label = ''Delete todo'' \<rparr>"

text \<open>Lines 263-303: an item of the tab \<open>completed\<close>.\<close>

definition li_completed :: "Todo \<Rightarrow> Li" where
  "li_completed todo = \<lparr>
     key = id_todo todo,
     div_className =
       ''flex items-center rounded-12 border border-gray-300 px-4 py-3 shadow-sm '' @
       (if status todo = Completed then ''text-gray-500 line-through'' else ''''),
     checkbox_id = String_num (id_todo todo),
     checked = (status todo = Completed),
     onCheckedChange = handleStatusChange (id_todo todo) (status todo),
     checkbox_className =
       ''flex h-6 w-6 items-center justify-center rounded-6 border border-gray-300 focus:border-gray-700 focus:outline-none data-[state=checked]:border-gray-700 data-[state=checked]:bg-gray-700'',
     label_className =
       ''block pl-3 font-medium '' @
       (if status todo = Completed then ''line-through-custom text-gray-500'' else ''''),
     htmlFor = String_num (id_todo todo),
     label_children = body todo,
     button_className = ''hover:text-red-500 ml-auto p-1 text-gray-500'',
     onClick = handleDelete (id_todo todo),
     aria_label = ''Delete todo'' \<rparr>"

text \<open>
  Lines 160-306: the children of the three \<^verbatim>\<open>Tabs.Content\<close> elements, by their
  \<^verbatim>\<open>value\<close>: \<^verbatim>\<open>todos.map(...)\<close>, and \<^verbatim>\<open>todos.filter(...).map(...)\<close> twice.
\<close>

definition content_all :: "Todo list \<Rightarrow> Li list" where
  "content_all todos = map li_all todos"

definition content_pending :: "Todo list \<Rightarrow> Li list" where
  "content_pending todos = map li_pending (filter (\<lambda>todo. status todo = Pending) todos)"

definition content_completed :: "Todo list \<Rightarrow> Li list" where
  "content_completed todos =
     map li_completed (filter (\<lambda>todo. status todo = Completed) todos)"

fun Tabs_Content :: "Filter \<Rightarrow> Todo list \<Rightarrow> Li list" where
  "Tabs_Content All todos = content_all todos"
| "Tabs_Content (Status Pending) todos = content_pending todos"
| "Tabs_Content (Status Completed) todos = content_completed todos"

text \<open>
  Lines 123-158: a \<^verbatim>\<open>Tabs.Trigger\<close>, with its value, its class (a template literal
  that spans three source lines, so it contains the line breaks and the indentation) and
  its text.
\<close>

record Trigger =
  trigger_value :: Filter
  trigger_className :: string
  trigger_children :: string

definition trigger_class :: "string \<Rightarrow> bool \<Rightarrow> string" where
  "trigger_class padding selected =
     ''rounded-full border border-gray-300 '' @ padding @
     '' text-sm font-bold transition-colors duration-300 focus:outline-none'' @
     [CHR 0x0A] @ replicate 14 (CHR '' '') @
     (if selected then ''bg-blue-600 bg-gray-700 text-white'' else ''bg-white text-gray-800'') @
     [CHR 0x0A] @ replicate 14 (CHR '' '') @ ''mb-8''"

definition Tabs_List :: "Filter \<Rightarrow> Trigger list" where
  "Tabs_List selectedStatus =
     [\<lparr> trigger_value = All,
        trigger_className = trigger_class ''px-6 py-2'' (selectedStatus = All),
        trigger_children = ''All'' \<rparr>,
      \<lparr> trigger_value = Status Pending,
        trigger_className = trigger_class ''px-5 py-2'' (selectedStatus = Status Pending),
        trigger_children = ''Pending'' \<rparr>,
      \<lparr> trigger_value = Status Completed,
        trigger_className = trigger_class ''px-6 py-1'' (selectedStatus = Status Completed),
        trigger_children = ''Completed'' \<rparr>]"

subsection \<open>The component\<close>

text \<open>
  What one mounted component holds between renders:
  \<^item> \<open>selectedStatus\<close>, the \<^verbatim>\<open>useState\<close> cell of lines 72-74;
  \<^item> \<open>tabsValue\<close>, the active tab that \<^verbatim>\<open>Tabs.Root\<close> keeps itself, since the source
    gives it a \<^verbatim>\<open>defaultValue\<close> and no \<^verbatim>\<open>value\<close> (line 117);
  \<^item> \<open>data\<close>, the last snapshot the query hook delivered, if any.
\<close>

record Component =
  selectedStatus :: Filter
  tabsValue :: Filter
  data :: "Todo list option"


definition setSelectedStatus :: "Filter \<Rightarrow> Component \<Rightarrow> Component" where
  "setSelectedStatus v c = c\<lparr> selectedStatus := v \<rparr>"

text \<open>
  The value the component returns (lines 114-309) together with the query it subscribes
  to while rendering. Of the three \<^verbatim>\<open>Tabs.Content\<close> elements, the tabs primitive
  shows the one whose value is the active tab.
\<close>

record View =
  query :: RemoteCall
  tabs_list :: "Trigger list"
  tabs_content :: "Li list"

definition TodoList :: "Component \<Rightarrow> View" where
  "TodoList c = \<lparr>
     query = useQuery (selectedStatus c),
     tabs_list = Tabs_List (selectedStatus c),
     tabs_content = Tabs_Content (tabsValue c) (todos_of (data c)) \<rparr>"

text \<open>
  What can happen to a mounted component: the user activates a tab, clicks the checkbox or
  the delete button of the \<open>i\<close>-th item shown, a mutation succeeds, or the query delivers
  a new result.
\<close>

datatype Event =
    ValueChange Filter
  | CheckedChange nat
  | DeleteClick nat
  | UpdateSucceeded
  | DeleteSucceeded
  | QueryResult "Todo list option"

text \<open>
  The reaction to an event: the new state and the remote calls made, in order. A click
  runs the callback of the item clicked, as rendered from the current state; there is
  nothing to click at a position past the end of the list. Line 118: the tabs primitive
  moves to the tab chosen and calls \<^verbatim>\<open>onValueChange\<close>, which sets the state cell.
\<close>

fun handle :: "Component \<Rightarrow> Event \<Rightarrow> Component \<times> RemoteCall list" where
  "handle c (ValueChange v) = (setSelectedStatus v (c\<lparr> tabsValue := v \<rparr>), [])"
| "handle c (CheckedChange i) =
     (let items = tabs_content (TodoList c)
      in if i < length items then (c, onCheckedChange (items ! i)) else (c, []))"
| "handle c (DeleteClick i) =
     (let items = tabs_content (TodoList c)
      in if i < length items then (c, onClick (items ! i)) else (c, []))"
| "handle c UpdateSucceeded = (c, onSuccess_update)"
| "handle c DeleteSucceeded = (c, onSuccess_delete)"
| "handle c (QueryResult d) = (c\<lparr> data := d \<rparr>, [])"

text \<open>A session: the events in order, from a given state, with all the calls made.\<close>

fun run :: "Component \<Rightarrow> Event list \<Rightarrow> Component \<times> RemoteCall list" where
  "run c [] = (c, [])"
| "run c (e # es) =
     (case handle c e of (c', calls) \<Rightarrow>
        (case run c' es of (c'', calls') \<Rightarrow> (c'', calls @ calls')))"

subsection \<open>Sample data\<close>

definition todo_tea :: Todo where
  "todo_tea = \<lparr> id_todo = 4, body = ''tea'', status = Pending \<rparr>"

definition todo_milk :: Todo where
  "todo_milk = \<lparr> id_todo = 7, body = ''milk'', status = Completed \<rparr>"

definition sample :: Component where
  "sample = \<lparr> selectedStatus = All, tabsValue = All, data = Some [todo_tea, todo_milk] \<rparr>"

subsection \<open>Reading a class attribute\<close>

text \<open>
  A class attribute is a list of class names separated by white space; the template
  literals of the source put spaces and line breaks between them.
\<close>

fun tokens_from :: "string \<Rightarrow> string \<Rightarrow> string list" where
  "tokens_from cur [] = (if cur = [] then [] else [cur])"
| "tokens_from cur (ch # rest) =
     (if ch = CHR '' '' \<or> ch = CHR 0x0A
      then (if cur = [] then [] else [cur]) @ tokens_from [] rest
      else tokens_from (cur @ [ch]) rest)"

definition class_tokens :: "string \<Rightarrow> string list" where
  "class_tokens cls = tokens_from [] cls"

text \<open>
  Modelled from the spec: the style sheets that give the class names their meaning are not
  part of the component's file. The spec speaks of the "strike-through styling" of a
  completed todo, and the header comment of the source of "a line-through text"; the two
  class names of the file that can carry it are the utility class \<open>line-through\<close> and the
  project's own \<open>line-through-custom\<close>. An element is taken to carry line-through styling
  when its class attribute lists one of the two.
\<close>

definition line_through_styled :: "string \<Rightarrow> bool" where
  "line_through_styled cls =
     (''line-through'' \<in> set (class_tokens cls) \<or>
      ''line-through-custom'' \<in> set (class_tokens cls))"

section \<open>Properties\<close>

subsection \<open>Auxiliary facts\<close>

lemma flipStatus_simps: "flipStatus Pending = Completed" "flipStatus Completed = Pending"
  by (simp_all add: flipStatus_def)

lemma flipStatus_neq: "flipStatus st \<noteq> st"
  by (cases st) (simp_all add: flipStatus_def)


lemma snd_run_Cons:
  "snd (run c (e # es)) = snd (handle c e) @ snd (run (fst (handle c e)) es)"
  by (simp split: prod.splits)





text \<open>
  Every item of a tab is the item of a todo of the list, keyed by its id, whose checkbox
  sends the status update and whose button sends the deletion of that todo.
\<close>

lemma Tabs_Content_item:
  "li \<in> set (Tabs_Content f todos) \<Longrightarrow>
   \<exists>todo \<in> set todos. key li = id_todo todo \<and>
      onCheckedChange li = [TodoStatusUpdate (id_todo todo) (flipStatus (status todo))] \<and>
      onClick li = [TodoDelete (id_todo todo)]"
  by (cases "(f, todos)" rule: Tabs_Content.cases)
     (auto simp: content_all_def content_pending_def content_completed_def li_all_def
        li_pending_def li_completed_def handleStatusChange_def handleDelete_def)

lemma handle_procedures:
  "set (map procedure (snd (handle c e)))
     \<subseteq> {''todo.getAll'', ''todoStatus.update'', ''todo.delete''}"
proof (cases e)
  case (CheckedChange i)
  show ?thesis
  proof (cases "i < length (tabs_content (TodoList c))")
    case True
    then have "tabs_content (TodoList c) ! i
        \<in> set (Tabs_Content (tabsValue c) (todos_of (data c)))"
      by (simp add: TodoList_def)
    from Tabs_Content_item [OF this] True CheckedChange show ?thesis
      by (auto simp: Let_def)
  next
    case False
    with CheckedChange show ?thesis by (simp add: Let_def)
  qed
next
  case (DeleteClick i)
  show ?thesis
  proof (cases "i < length (tabs_content (TodoList c))")
    case True
    then have "tabs_content (TodoList c) ! i
        \<in> set (Tabs_Content (tabsValue c) (todos_of (data c)))"
      by (simp add: TodoList_def)
    from Tabs_Content_item [OF this] True DeleteClick show ?thesis
      by (auto simp: Let_def)
  next
    case False
    with DeleteClick show ?thesis by (simp add: Let_def)
  qed
qed (simp_all add: onSuccess_update_def onSuccess_delete_def)

lemma run_procedures:
  "set (map procedure (snd (run c es)))
     \<subseteq> {''todo.getAll'', ''todoStatus.update'', ''todo.delete''}"
proof (induction es arbitrary: c)
  case Nil
  show ?case by simp
next
  case (Cons e es)
  from handle_procedures [of c e] Cons.IH [of "fst (handle c e)"] show ?case
    by (simp only: snd_run_Cons map_append set_append Un_subset_iff)
qed

subsection \<open>Toggling completion\<close>

text \<open>
  C1. Toggling sends the opposite status. \<open>handleStatusChange\<close> makes exactly one call,
  the status update for the given todo: with \<open>completed\<close> when the current status is
  \<open>pending\<close>, with \<open>pending\<close> when it is \<open>completed\<close>, and so never with the current
  status. The checkbox of every item, in each of the three tabs, calls it with the id and
  the status of its todo.
\<close>

theorem handleStatusChange_sends_opposite_status:
  "handleStatusChange todoId Pending = [TodoStatusUpdate todoId Completed] \<and>
   handleStatusChange todoId Completed = [TodoStatusUpdate todoId Pending] \<and>
   (\<exists>sent. handleStatusChange todoId currentStatus = [TodoStatusUpdate todoId sent] \<and>
      sent \<noteq> currentStatus) \<and>
   onCheckedChange (li_all todo) = handleStatusChange (id_todo todo) (status todo) \<and>
   onCheckedChange (li_pending todo) = handleStatusChange (id_todo todo) (status todo) \<and>
   onCheckedChange (li_completed todo) = handleStatusChange (id_todo todo) (status todo)"
  by (simp add: handleStatusChange_def flipStatus_simps flipStatus_neq li_all_def
      li_pending_def li_completed_def)

subsection \<open>What is displayed\<close>


text \<open>
  C3. Checkbox state and strike-through follow the status. For the item of a todo, in
  each of the three tabs, the checkbox is checked exactly when the status is
  \<open>completed\<close>, and the label's class attribute carries line-through styling exactly
  when the status is \<open>completed\<close>.
\<close>

theorem checkbox_and_strike_through_follow_status:
  "checked (li_all todo) = (status todo = Completed) \<and>
   checked (li_pending todo) = (status todo = Completed) \<and>
   checked (li_completed todo) = (status todo = Completed) \<and>
   line_through_styled (label_className (li_all todo)) = (status todo = Completed) \<and>
   line_through_styled (label_className (li_pending todo)) = (status todo = Completed) \<and>
   line_through_styled (label_className (li_completed todo)) = (status todo = Completed)"
  by (cases "status todo")
     (simp_all add: li_all_def li_pending_def li_completed_def line_through_styled_def
        class_tokens_def)

subsection \<open>The query\<close>

text \<open>
  C4. The statuses requested are a function of the selected filter: the query of a render
  is the fetch-all call with the statuses computed from the selected filter, which are
  \<open>completed\<close> and \<open>pending\<close>, in this order, for the filter \<open>all\<close>, and the
  one-element list of the selected status otherwise.
\<close>

theorem query_statuses_from_selected_filter:
  "query (TodoList c) = TodoGetAll (statuses (selectedStatus c)) \<and>
   statuses All = [Completed, Pending] \<and>
   statuses (Status st) = [st]"
  by (simp add: TodoList_def useQuery_def statuses_def)

subsection \<open>State and remote calls\<close>

text \<open>
  C5. The component holds no authoritative todo state. A click on a checkbox or on a delete
  button leaves the component's state, the held snapshot included, as it was; when an item
  is at the position clicked, the click makes exactly one remote call, the status update
  or the deletion, carrying the id of that item's todo, which is a todo of the snapshot.
  The success of either mutation leaves the state as it was too and makes exactly one
  call, the refetch of \<open>todo.getAll\<close>.
\<close>

theorem handlers_issue_only_remote_mutations:
  "fst (handle c (CheckedChange i)) = c \<and>
   fst (handle c (DeleteClick i)) = c \<and>
   handle c UpdateSucceeded = (c, [TodoGetAllRefetch]) \<and>
   handle c DeleteSucceeded = (c, [TodoGetAllRefetch]) \<and>
   procedure TodoGetAllRefetch = ''todo.getAll'' \<and>
   (i < length (tabs_content (TodoList c)) \<longrightarrow>
      (\<exists>todo \<in> set (todos_of (data c)).
         key (tabs_content (TodoList c) ! i) = id_todo todo \<and>
         handle c (CheckedChange i) =
           (c, [TodoStatusUpdate (id_todo todo) (flipStatus (status todo))]) \<and>
         handle c (DeleteClick i) = (c, [TodoDelete (id_todo todo)])))"
proof -
  have unchanged: "fst (handle c (CheckedChange i)) = c" "fst (handle c (DeleteClick i)) = c"
    by (simp_all add: Let_def)
  have success: "handle c UpdateSucceeded = (c, [TodoGetAllRefetch])"
    "handle c DeleteSucceeded = (c, [TodoGetAllRefetch])"
    by (simp_all add: onSuccess_update_def onSuccess_delete_def)
  have clicked: "\<exists>todo \<in> set (todos_of (data c)).
         key (tabs_content (TodoList c) ! i) = id_todo todo \<and>
         handle c (CheckedChange i) =
           (c, [TodoStatusUpdate (id_todo todo) (flipStatus (status todo))]) \<and>
         handle c (DeleteClick i) = (c, [TodoDelete (id_todo todo)])"
    if shown: "i < length (tabs_content (TodoList c))"
  proof -
    from shown have "tabs_content (TodoList c) ! i \<in> set (tabs_content (TodoList c))"
      by (rule nth_mem)
    then have "tabs_content (TodoList c) ! i
        \<in> set (Tabs_Content (tabsValue c) (todos_of (data c)))"
      by (simp add: TodoList_def)
    from Tabs_Content_item [OF this] obtain todo where
      "todo \<in> set (todos_of (data c))"
      "key (tabs_content (TodoList c) ! i) = id_todo todo"
      "onCheckedChange (tabs_content (TodoList c) ! i) =
         [TodoStatusUpdate (id_todo todo) (flipStatus (status todo))]"
      "onClick (tabs_content (TodoList c) ! i) = [TodoDelete (id_todo todo)]"
      by blast
    with shown show ?thesis
      by (intro bexI [of _ todo]) (simp_all add: Let_def)
  qed
  from unchanged success clicked show ?thesis
    by simp
qed

text \<open>
  The sample component shows two items; a click on the second one's checkbox sends the
  update of todo 7 to \<open>pending\<close>, a click on its button the deletion of todo 7.
\<close>

theorem handlers_issue_only_remote_mutations_witness:
  "1 < length (tabs_content (TodoList sample)) \<and>
   key (tabs_content (TodoList sample) ! 1) = 7 \<and>
   handle sample (CheckedChange 1) = (sample, [TodoStatusUpdate 7 Pending]) \<and>
   handle sample (DeleteClick 1) = (sample, [TodoDelete 7])"
  using handlers_issue_only_remote_mutations [of sample 1]
  by (simp add: sample_def todo_tea_def todo_milk_def TodoList_def todos_of_def
      content_all_def li_all_def flipStatus_def)



text \<open>
  C7. Exactly three remote procedures. The query of every render addresses
  \<open>todo.getAll\<close>; every call made during any sequence of events, from any state,
  addresses \<open>todo.getAll\<close>, \<open>todoStatus.update\<close> or \<open>todo.delete\<close>; and each of the
  three is addressed in the session of the sample component in which the first item's
  checkbox and delete button are clicked.
\<close>

theorem exactly_three_remote_procedures:
  "procedure (query (TodoList c)) = ''todo.getAll'' \<and>
   set (map procedure (snd (run c es)))
     \<subseteq> {''todo.getAll'', ''todoStatus.update'', ''todo.delete''} \<and>
   set (map procedure
        (query (TodoList sample) # snd (run sample [CheckedChange 0, DeleteClick 0])))
     = {''todo.getAll'', ''todoStatus.update'', ''todo.delete''}"
proof -
  have "procedure (query (TodoList c)) = ''todo.getAll''"
    by (simp add: TodoList_def useQuery_def)
  moreover have
    "set (map procedure
        (query (TodoList sample) # snd (run sample [CheckedChange 0, DeleteClick 0])))
       = {''todo.getAll'', ''todoStatus.update'', ''todo.delete''}"
    by (simp add: sample_def TodoList_def useQuery_def todos_of_def content_all_def li_all_def
        handleStatusChange_def handleDelete_def Let_def insert_commute)
  ultimately show ?thesis
    using run_procedures [of c es] by simp
qed

subsection \<open>The tab of pending todos\<close>

text \<open>
  C8. In the tab \<open>pending\<close> the branches for a completed todo are never taken. For every
  list of todos, every item of the tab is the item of a todo of the list whose status is
  \<open>pending\<close>; its container class ends where the conditional part begins (no
  \<open>bg-gray-700\<close>), its checkbox is not checked, and its label class ends where the
  conditional part begins (no \<open>line-through-custom text-white\<close>).
\<close>

theorem pending_tab_completed_branches_unreachable:
  "\<forall>li \<in> set (content_pending todos).
     (\<exists>todo \<in> set todos. status todo = Pending \<and> li = li_pending todo) \<and>
     div_className li =
       ''flex items-center rounded-12 border border-gray-200 px-4 py-3 shadow-sm '' \<and>
     \<not> checked li \<and>
     label_className li = ''block pl-3 font-medium ''"
proof
  fix li
  assume "li \<in> set (content_pending todos)"
  then obtain todo where todo: "todo \<in> set todos" "status todo = Pending"
    and li: "li = li_pending todo"
    by (auto simp: content_pending_def)
  from todo li have "\<exists>todo \<in> set todos. status todo = Pending \<and> li = li_pending todo"
    by blast
  moreover from todo(2) have
    "div_className (li_pending todo) =
       ''flex items-center rounded-12 border border-gray-200 px-4 py-3 shadow-sm ''"
    "\<not> checked (li_pending todo)"
    "label_className (li_pending todo) = ''block pl-3 font-medium ''"
    by (simp_all add: li_pending_def)
  ultimately show
    "(\<exists>todo \<in> set todos. status todo = Pending \<and> li = li_pending todo) \<and>
     div_className li =
       ''flex items-center rounded-12 border border-gray-200 px-4 py-3 shadow-sm '' \<and>
     \<not> checked li \<and>
     label_className li = ''block pl-3 font-medium ''"
    using li by simp
qed

text \<open>
  Of a pending and a completed todo, the tab shows one item, that of the pending one.
\<close>

theorem pending_tab_completed_branches_unreachable_witness:
  "li_pending todo_tea \<in> set (content_pending [todo_tea, todo_milk]) \<and>
   length (content_pending [todo_tea, todo_milk]) = 1 \<and>
   div_className (li_pending todo_tea) =
     ''flex items-center rounded-12 border border-gray-200 px-4 py-3 shadow-sm '' \<and>
   \<not> checked (li_pending todo_tea) \<and>
   label_className (li_pending todo_tea) = ''block pl-3 font-medium ''"
proof -
  have shown: "li_pending todo_tea \<in> set (content_pending [todo_tea, todo_milk])"
    by (simp add: content_pending_def todo_tea_def todo_milk_def)
  have "length (content_pending [todo_tea, todo_milk]) = 1"
    by (simp add: content_pending_def todo_tea_def todo_milk_def)
  with shown
    pending_tab_completed_branches_unreachable
      [of "[todo_tea, todo_milk]", THEN bspec, OF shown]
  show ?thesis by simp
qed

subsection \<open>The status flip\<close>

text \<open>
  C9. The flip is an involution: the status that \<open>handleStatusChange\<close> sends for the
  status it would send for \<open>st\<close> is \<open>st\<close> again, for both statuses.
\<close>

theorem flipStatus_involution:
  "flipStatus (flipStatus st) = st \<and>
   handleStatusChange todoId st = [TodoStatusUpdate todoId (flipStatus st)] \<and>
   handleStatusChange todoId (flipStatus st) = [TodoStatusUpdate todoId st]"
  by (cases st) (simp_all add: flipStatus_def handleStatusChange_def)

subsection \<open>Order\<close>

text \<open>
  C10. Rendering preserves the order of the fetched list. For every tab and every list of
  todos, the items of the tab are, one for one and in order, the items of a subsequence of
  the list: their keys are its ids, their label texts its bodies, their checkbox states
  its statuses.
\<close>

theorem tabs_preserve_fetched_order:
  "\<exists>shown. subseq shown todos \<and>
     map key (Tabs_Content f todos) = map id_todo shown \<and>
     map label_children (Tabs_Content f todos) = map body shown \<and>
     map checked (Tabs_Content f todos) = map (\<lambda>todo. status todo = Completed) shown"
proof (cases "(f, todos)" rule: Tabs_Content.cases)
  case (1 ts)
  then show ?thesis
    by (intro exI [of _ todos]) (simp add: content_all_def li_all_def)
next
  case (2 ts)
  then show ?thesis
    by (intro exI [of _ "filter (\<lambda>todo. status todo = Pending) todos"])
       (simp add: content_pending_def li_pending_def)
next
  case (3 ts)
  then show ?thesis
    by (intro exI [of _ "filter (\<lambda>todo. status todo = Completed) todos"])
       (simp add: content_completed_def li_completed_def)
qed

end
